theory Spec2Isabelle
  imports Main "HOL-Library.Word"
begin

unbundle bit_operations_syntax

section \<open>The cache manager background worker (pgmatview\_main.c)\<close>

text \<open>
  The file \<^verbatim>\<open>src/lib/pgmatview_main.c\<close> holds three entry points: \<^verbatim>\<open>cachemgr_launch\<close>
  (the dynamic launch of one worker), \<^verbatim>\<open>_PG_init\<close> (the static registration at module
  load) and \<^verbatim>\<open>cachemgr_main\<close> (the worker's main loop, with its two signal handlers).
  Each is embedded as a function that takes the answers of the host (PostgreSQL) as an
  argument and returns what the code returns together with the host calls it made, in
  order.

  The source spells a few host names in a way the host does not know (\<^verbatim>\<open>Dataum\<close>,
  \<^verbatim>\<open>DataumGetInt32\<close>, \<^verbatim>\<open>PushActiveSnapshop\<close>, \<^verbatim>\<open>bgw_main_Arg\<close>, \<^verbatim>\<open>BGW_SHMEM_ACCESS\<close>)
  and leaves out the comma after \<^verbatim>\<open>ERROR\<close> in its second \<^verbatim>\<open>ereport\<close>; each is read as the
  host name or call it stands for (\<^verbatim>\<open>Datum\<close>, \<^verbatim>\<open>DatumGetInt32\<close>, \<^verbatim>\<open>PushActiveSnapshot\<close>,
  \<^verbatim>\<open>bgw_main_arg\<close>, \<^verbatim>\<open>BGWORKER_SHMEM_ACCESS\<close>).
\<close>

subsection \<open>Host constants and types\<close>

text \<open>
  Constants of the host's headers (\<^verbatim>\<open>postmaster/bgworker.h\<close>, \<^verbatim>\<open>storage/latch.h\<close>,
  \<^verbatim>\<open>utils/errcodes.h\<close>, \<^verbatim>\<open>limits.h\<close>), which are not part of the repository. The values
  are PostgreSQL's; the code only combines the flags with \<^verbatim>\<open>|\<close> and tests one with
  \<^verbatim>\<open>&\<close>.
\<close>

definition BGWORKER_SHMEM_ACCESS :: "32 word" where
  "BGWORKER_SHMEM_ACCESS = 0x0001"

definition BGWORKER_BACKEND_DATABASE_CONNECTION :: "32 word" where
  "BGWORKER_BACKEND_DATABASE_CONNECTION = 0x0002"

definition BGW_NEVER_RESTART :: int where
  "BGW_NEVER_RESTART = -1"

definition BGW_MAXLEN :: nat where
  "BGW_MAXLEN = 64"

definition INT_MAX :: int where
  "INT_MAX = 2147483647"

definition WL_LATCH_SET :: "32 word" where
  "WL_LATCH_SET = push_bit 0 1"

definition WL_TIMEOUT :: "32 word" where
  "WL_TIMEOUT = push_bit 3 1"

definition WL_POSTMASTER_DEATH :: "32 word" where
  "WL_POSTMASTER_DEATH = push_bit 4 1"

text \<open>\<^verbatim>\<open>ERRCODE_INSUFFICIENT_RESOURCES\<close> is the SQLSTATE 53000.\<close>

definition ERRCODE_INSUFFICIENT_RESOURCES :: string where
  "ERRCODE_INSUFFICIENT_RESOURCES = ''53000''"

datatype BgWorkerStartTime =
    BgWorkerStart_PostmasterStart
  | BgWorkerStart_ConsistentState
  | BgWorkerStart_RecoveryFinished

datatype BgwHandleStatus =
    BGWH_STARTED
  | BGWH_NOT_YET_STARTED
  | BGWH_STOPPED
  | BGWH_POSTMASTER_DIED

text \<open>The fields of \<^verbatim>\<open>BackgroundWorker\<close> that the code assigns.\<close>

record BackgroundWorker =
  bgw_name :: string
  bgw_flags :: "32 word"
  bgw_start_time :: BgWorkerStartTime
  bgw_restart_time :: int
  bgw_library_name :: string
  bgw_function_name :: string
  bgw_main_arg :: int
  bgw_notify_pid :: int

text \<open>
  \<^verbatim>\<open>memset( &worker, 0, sizeof( worker ) )\<close>: every field zero, the strings empty, the
  enumeration at its first value.
\<close>

definition zeroed_worker :: BackgroundWorker where
  "zeroed_worker =
     \<lparr>bgw_name = [], bgw_flags = 0, bgw_start_time = BgWorkerStart_PostmasterStart,
      bgw_restart_time = 0, bgw_library_name = [], bgw_function_name = [],
      bgw_main_arg = 0, bgw_notify_pid = 0\<rparr>"

subsection \<open>Formatting of worker names\<close>

text \<open>
  \<^verbatim>\<open>snprintf( worker.bgw_name, BGW_MAXLEN, "cachemgr_%d", i )\<close>: the decimal digits of
  the argument read as a signed int, the result cut to \<^verbatim>\<open>BGW_MAXLEN - 1\<close> characters.
\<close>

fun decimal :: "nat \<Rightarrow> string" where
  "decimal n =
     (if n < 10 then [''0123456789'' ! n]
      else decimal (n div 10) @ [''0123456789'' ! (n mod 10)])"

declare decimal.simps [simp del]

definition percent_d :: "int \<Rightarrow> string" where
  "percent_d i = (if i < 0 then CHR ''-'' # decimal (nat (- i)) else decimal (nat i))"

definition worker_name :: "int \<Rightarrow> string" where
  "worker_name i = take (BGW_MAXLEN - 1) (''cachemgr_'' @ percent_d i)"

subsection \<open>The dynamic launch: cachemgr\_launch\<close>

text \<open>
  An error raised with \<^verbatim>\<open>ereport( ERROR, ... )\<close> leaves the function; it is a result of
  its own, carrying the error code, the message and the hint the code passes.
\<close>

record ErrorData =
  sqlerrcode :: string
  message :: string
  hint :: string

text \<open>
  What a call of \<^verbatim>\<open>cachemgr_launch\<close> ends in: \<^verbatim>\<open>PG_RETURN_NULL()\<close>,
  \<^verbatim>\<open>PG_RETURN_INT32( pid )\<close>, an \<^verbatim>\<open>ereport( ERROR, ... )\<close>, or a failed \<^verbatim>\<open>Assert\<close>.
\<close>

datatype launch_result =
    RETURN_NULL
  | RETURN_INT32 int
  | ERROR ErrorData
  | ASSERT_FAILED

text \<open>
  The answers of the host to one launch: whether \<^verbatim>\<open>RegisterDynamicBackgroundWorker\<close>
  accepts the request, the status \<^verbatim>\<open>WaitForBackgroundWorkerStartup\<close> returns and the pid
  it stores, the pid of the calling backend, and whether the build checks assertions
  (\<^verbatim>\<open>Assert\<close> is empty otherwise).
\<close>

record launch_host =
  register_ok :: bool
  startup_status :: BgwHandleStatus
  startup_pid :: int
  MyProcPid :: int
  assert_checking :: bool

datatype launch_call =
    RegisterDynamicBackgroundWorker BackgroundWorker
  | WaitForBackgroundWorkerStartup

definition launch_worker :: "int \<Rightarrow> launch_host \<Rightarrow> BackgroundWorker" where
  "launch_worker i h =
     zeroed_worker
       \<lparr>bgw_flags := BGWORKER_SHMEM_ACCESS OR BGWORKER_BACKEND_DATABASE_CONNECTION,
        bgw_start_time := BgWorkerStart_RecoveryFinished,
        bgw_restart_time := BGW_NEVER_RESTART,
        bgw_library_name := ''cachemgr'',
        bgw_function_name := ''cachemgr_main'',
        bgw_name := worker_name i,
        bgw_main_arg := i,
        bgw_notify_pid := MyProcPid h\<rparr>"

definition could_not_start :: ErrorData where
  "could_not_start =
     \<lparr>sqlerrcode = ERRCODE_INSUFFICIENT_RESOURCES,
      message = ''Could not start background process'',
      hint = ''Check server logs.''\<rparr>"

definition no_postmaster :: ErrorData where
  "no_postmaster =
     \<lparr>sqlerrcode = ERRCODE_INSUFFICIENT_RESOURCES,
      message = ''Cannot start background process without postmaster'',
      hint = ''Kill all remaining database processes and restart the database''\<rparr>"

definition cachemgr_launch :: "int \<Rightarrow> launch_host \<Rightarrow> launch_call list \<times> launch_result" where
  "cachemgr_launch i h =
     (let worker = launch_worker i h in
      if \<not> register_ok h then ([RegisterDynamicBackgroundWorker worker], RETURN_NULL)
      else
        let calls = [RegisterDynamicBackgroundWorker worker, WaitForBackgroundWorkerStartup];
            status = startup_status h;
            pid = startup_pid h
        in if status = BGWH_STOPPED then (calls, ERROR could_not_start)
           else if status = BGWH_POSTMASTER_DIED then (calls, ERROR no_postmaster)
           else if assert_checking h \<and> status \<noteq> BGWH_STARTED then (calls, ASSERT_FAILED)
           else (calls, RETURN_INT32 pid))"

text \<open>The error code of a result, when the result is an error.\<close>

fun error_code :: "launch_result \<Rightarrow> string option" where
  "error_code (ERROR e) = Some (sqlerrcode e)"
| "error_code _ = None"

subsection \<open>Configuration variables\<close>

datatype GucContext = PGC_POSTMASTER | PGC_SIGHUP

text \<open>
  The arguments of a \<^verbatim>\<open>DefineCustomIntVariable\<close> call that are not \<^verbatim>\<open>NULL\<close> or 0: the
  name, the short description, the boot value, the minimum, the maximum and the context.
\<close>

record config_int =
  guc_name :: string
  short_desc :: string
  bootValue :: int
  minValue :: int
  maxValue :: int
  guc_context :: GucContext

definition sleep_time_guc :: config_int where
  "sleep_time_guc =
     \<lparr>guc_name = ''cachemgr.sleep_time'',
      short_desc = ''Duration between invalidation peeks (ms)'',
      bootValue = 10, minValue = 1, maxValue = INT_MAX, guc_context = PGC_SIGHUP\<rparr>"

definition worker_count_guc :: config_int where
  "worker_count_guc =
     \<lparr>guc_name = ''cachemgr.worker_count'',
      short_desc = ''Number of workers to start.'',
      bootValue = 1, minValue = 1, maxValue = 50, guc_context = PGC_POSTMASTER\<rparr>"

text \<open>
  Modelled from the spec: the host's handling of a configured value, which is not part
  of the repository (\<^verbatim>\<open>DefineCustomIntVariable\<close>, \<^verbatim>\<open>ProcessConfigFile\<close>). Sections 4.5
  and 7: a value outside the variable's range is rejected at load time, that
  configuration attempt fails and the previous value is retained. A variable the
  configuration does not set has its boot value.
\<close>

datatype guc_outcome = GUC_unset | GUC_accepted int | GUC_rejected int

definition guc_load :: "config_int \<Rightarrow> int option \<Rightarrow> guc_outcome" where
  "guc_load g configured =
     (case configured of
        None \<Rightarrow> GUC_unset
      | Some v \<Rightarrow> if minValue g \<le> v \<and> v \<le> maxValue g then GUC_accepted v else GUC_rejected v)"

fun guc_assign :: "config_int \<Rightarrow> int \<Rightarrow> guc_outcome \<Rightarrow> int" where
  "guc_assign g previous GUC_unset = bootValue g"
| "guc_assign g previous (GUC_accepted v) = v"
| "guc_assign g previous (GUC_rejected v) = previous"

subsection \<open>The static registration: \_PG\_init\<close>

text \<open>
  The answers of the host to \<^verbatim>\<open>_PG_init\<close>: whether the library is being loaded from
  \<^verbatim>\<open>shared_preload_libraries\<close>, and what the configuration sets the two variables to.
\<close>

record init_host =
  process_shared_preload_libraries_in_progress :: bool
  conf_sleep_time :: "int option"
  conf_worker_count :: "int option"

datatype init_call =
    DefineCustomIntVariable config_int guc_outcome
  | RegisterBackgroundWorker BackgroundWorker

text \<open>
  The module's two configuration variables after \<^verbatim>\<open>_PG_init\<close>, and the host calls it
  made.
\<close>

record init_state =
  init_sleep_time :: int
  init_worker_count :: int
  init_calls :: "init_call list"

definition static_worker :: BackgroundWorker where
  "static_worker =
     zeroed_worker
       \<lparr>bgw_flags := BGWORKER_SHMEM_ACCESS OR BGWORKER_BACKEND_DATABASE_CONNECTION,
        bgw_start_time := BgWorkerStart_RecoveryFinished,
        bgw_restart_time := BGW_NEVER_RESTART,
        bgw_library_name := ''cachemgr'',
        bgw_function_name := ''cachemgr_main'',
        bgw_notify_pid := 0\<rparr>"

text \<open>
  The body of the registration loop: the name and the argument of the worker for the
  counter \<^verbatim>\<open>i\<close>, an \<^verbatim>\<open>unsigned int\<close> passed to \<^verbatim>\<open>%d\<close> and to \<^verbatim>\<open>Int32GetDatum\<close>, both
  of which read it as a signed 32-bit value.
\<close>

definition numbered :: "BackgroundWorker \<Rightarrow> 32 word \<Rightarrow> BackgroundWorker" where
  "numbered worker i = worker\<lparr>bgw_name := worker_name (sint i), bgw_main_arg := sint i\<rparr>"

text \<open>
  \<^verbatim>\<open>for( i = 1; i <= cachemgr_worker_count; i++ )\<close> with \<^verbatim>\<open>unsigned int i\<close> and
  \<^verbatim>\<open>int cachemgr_worker_count\<close>: the comparison converts the count to unsigned, and the
  increment wraps. A count of \<^verbatim>\<open>-1\<close> would make the condition hold for every \<^verbatim>\<open>i\<close>, so
  the loop is a partial function: \<open>None\<close> when it does not end.
\<close>

partial_function (option) register_workers ::
  "BackgroundWorker \<Rightarrow> 32 word \<Rightarrow> int \<Rightarrow> init_call list \<Rightarrow> init_call list option" where
  "register_workers worker i count done_calls =
     (if i \<le> word_of_int count
      then register_workers (numbered worker i) (i + 1) count
             (done_calls @ [RegisterBackgroundWorker (numbered worker i)])
      else Some done_calls)"

declare register_workers.simps [code]

definition PG_init :: "init_host \<Rightarrow> init_state option" where
  "PG_init h =
     (let sleep_load = guc_load sleep_time_guc (conf_sleep_time h);
          cachemgr_sleep_time = guc_assign sleep_time_guc 10 sleep_load;
          calls1 = [DefineCustomIntVariable sleep_time_guc sleep_load]
      in if \<not> process_shared_preload_libraries_in_progress h
         then Some \<lparr>init_sleep_time = cachemgr_sleep_time, init_worker_count = 1,
                    init_calls = calls1\<rparr>
         else
           let count_load = guc_load worker_count_guc (conf_worker_count h);
               cachemgr_worker_count = guc_assign worker_count_guc 1 count_load;
               calls2 = calls1 @ [DefineCustomIntVariable worker_count_guc count_load]
           in map_option
                (\<lambda>cs. \<lparr>init_sleep_time = cachemgr_sleep_time,
                        init_worker_count = cachemgr_worker_count, init_calls = cs\<rparr>)
                (register_workers static_worker 1 cachemgr_worker_count calls2))"

text \<open>The workers registered by a sequence of host calls, in order.\<close>

fun registered :: "init_call list \<Rightarrow> BackgroundWorker list" where
  "registered [] = []"
| "registered (RegisterBackgroundWorker worker # cs) = worker # registered cs"
| "registered (DefineCustomIntVariable g r # cs) = registered cs"

subsection \<open>The worker: signal handlers and latch\<close>

datatype signal = SIGHUP | SIGTERM

datatype BackendState = STATE_RUNNING | STATE_IDLE

text \<open>
  The host calls of \<^verbatim>\<open>cachemgr_main\<close> and \<^verbatim>\<open>initialize_cachemgr\<close>. \<^verbatim>\<open>WaitLatch\<close> carries
  its wake events and its timeout (its last argument, \<^verbatim>\<open>PG_WAIT_EXTENSION\<close>, only labels
  the wait). The comment \<^verbatim>\<open>/* D O   S O M E   S T U F F */\<close> of the source is no call:
  between \<^verbatim>\<open>pgstat_report_activity\<close> and \<^verbatim>\<open>SPI_finish\<close> the code does nothing.
\<close>

datatype call =
    pqsignal signal
  | BackgroundWorkerUnblockSignals
  | BackgroundWorkerInitializeConnection string
  | SetCurrentStatementStartTimestamp
  | StartTransactionCommand
  | SPI_connect
  | PushActiveSnapshot
  | pgstat_report_activity BackendState "string option"
  | SPI_finish
  | PopActiveSnapshot
  | CommitTransactionCommand
  | pgstat_report_stat bool
  | WaitLatch "32 word" int
  | ResetLatch
  | CHECK_FOR_INTERRUPTS
  | ProcessConfigFile GucContext
  | proc_exit int

text \<open>
  The worker's state: the two flags of the signal handlers, the set flag of \<^verbatim>\<open>MyLatch\<close>,
  the configuration variable the loop reads, and the host calls made so far.
\<close>

record worker =
  got_sighup :: bool
  got_sigterm :: bool
  MyLatch :: bool
  cachemgr_sleep_time :: int
  calls :: "call list"

text \<open>
  What the host does during one iteration of the main loop. Signals are asynchronous,
  so the iteration names every window in which the handlers can run: after the loop
  test and before the wait (\<open>pre_wait\<close>), while the wait blocks (\<open>in_wait\<close>), between
  the return of the wait and the reset (\<open>before_reset\<close>), between the reset and the test
  of \<^verbatim>\<open>got_sighup\<close> (\<open>after_reset\<close>), and from there to the next loop test
  (\<open>in_work\<close>). \<open>woken\<close> is the reason the host reports for a wait that blocked,
  \<open>conf_reload\<close> the setting of \<^verbatim>\<open>cachemgr.sleep_time\<close> in the configuration file when
  it is read again. When the wait returns without blocking, the signals of \<open>in_wait\<close>
  arrive right after its return.
\<close>

record wake =
  pre_wait :: "signal list"
  woken :: "32 word"
  in_wait :: "signal list"
  before_reset :: "signal list"
  after_reset :: "signal list"
  conf_reload :: "int option"
  in_work :: "signal list"

text \<open>
  Modelled from the spec: the latch of the host, which is not part of the repository
  (\<^verbatim>\<open>SetLatch\<close>, \<^verbatim>\<open>ResetLatch\<close>, \<^verbatim>\<open>WaitLatch\<close>). Sections 3 and 4.1: a latch is a boolean
  set flag; \<open>set\<close> sets it and coalesces; \<open>reset\<close> clears it; \<open>wait\<close> on a latch that
  is set returns at once with the explicit-set reason, and otherwise blocks until the
  latch is set, the timeout elapses or the parent dies, and returns a bitmask of the
  reasons, among those asked for.
\<close>

definition Latch_set :: "bool \<Rightarrow> bool" where
  "Latch_set l = True"

definition Latch_reset :: "bool \<Rightarrow> bool" where
  "Latch_reset l = False"

definition Latch_wait :: "bool \<Rightarrow> 32 word \<Rightarrow> wake \<Rightarrow> 32 word" where
  "Latch_wait l wakeEvents e =
     (if l then WL_LATCH_SET
      else ((if in_wait e \<noteq> [] then WL_LATCH_SET else 0) OR woken e) AND wakeEvents)"

definition cachemgr_sigterm :: "worker \<Rightarrow> worker" where
  "cachemgr_sigterm w = w\<lparr>got_sigterm := True, MyLatch := Latch_set (MyLatch w)\<rparr>"

definition cachemgr_sighup :: "worker \<Rightarrow> worker" where
  "cachemgr_sighup w = w\<lparr>got_sighup := True, MyLatch := Latch_set (MyLatch w)\<rparr>"

fun handler :: "signal \<Rightarrow> worker \<Rightarrow> worker" where
  "handler SIGTERM = cachemgr_sigterm"
| "handler SIGHUP = cachemgr_sighup"

definition deliver :: "signal list \<Rightarrow> worker \<Rightarrow> worker" where
  "deliver sigs w = fold handler sigs w"

definition emit :: "call list \<Rightarrow> worker \<Rightarrow> worker" where
  "emit cs w = w\<lparr>calls := calls w @ cs\<rparr>"

subsection \<open>The worker: initialization and main loop\<close>

text \<open>
  How a run of the worker stands: \<open>Running\<close> (the code goes on) or \<open>Exited\<close> with the
  status passed to \<^verbatim>\<open>proc_exit\<close>.
\<close>

datatype outcome = Running worker | Exited int worker

fun state_of :: "outcome \<Rightarrow> worker" where
  "state_of (Running w) = w"
| "state_of (Exited n w) = w"

text \<open>The status passed to \<^verbatim>\<open>proc_exit\<close>, when the run has ended that way.\<close>

fun exit_status :: "outcome \<Rightarrow> int option" where
  "exit_status (Exited n w) = Some n"
| "exit_status (Running w) = None"

definition initialize_cachemgr :: "worker \<Rightarrow> worker" where
  "initialize_cachemgr w =
     emit [SetCurrentStatementStartTimestamp, StartTransactionCommand, SPI_connect,
           PushActiveSnapshot,
           pgstat_report_activity STATE_RUNNING (Some ''Initializing Cache Manager''),
           SPI_finish, PopActiveSnapshot, CommitTransactionCommand,
           pgstat_report_activity STATE_IDLE None] w"

definition wake_events :: "32 word" where
  "wake_events = WL_LATCH_SET OR WL_TIMEOUT OR WL_POSTMASTER_DEATH"

text \<open>
  \<^verbatim>\<open>cachemgr_sleep_time * 1000L\<close>: the \<^verbatim>\<open>int\<close> is converted to \<^verbatim>\<open>long\<close> (64 bits) and
  multiplied there.
\<close>

definition wait_timeout :: "int \<Rightarrow> int" where
  "wait_timeout sleep_time = sint (word_of_int sleep_time * 1000 :: 64 word)"

text \<open>The return value of the \<^verbatim>\<open>WaitLatch\<close> call of an iteration that starts in \<open>w\<close>.\<close>

definition wait_result :: "wake \<Rightarrow> worker \<Rightarrow> 32 word" where
  "wait_result e w = Latch_wait (MyLatch (deliver (pre_wait e) w)) wake_events e"

definition work_begin :: "call list" where
  "work_begin =
     [SetCurrentStatementStartTimestamp, StartTransactionCommand, SPI_connect,
      PushActiveSnapshot, pgstat_report_activity STATE_RUNNING (Some ''Foobar'')]"

definition work_end :: "call list" where
  "work_end =
     [SPI_finish, PopActiveSnapshot, CommitTransactionCommand, pgstat_report_stat False,
      pgstat_report_activity STATE_IDLE None]"

text \<open>
  The body of \<^verbatim>\<open>while( !got_sigterm ) { ... }\<close>, one iteration. The work cycle is the
  calls of \<open>work_begin\<close> followed by those of \<open>work_end\<close>; the signals of \<open>in_work\<close>
  arrive between the two.
\<close>

definition loop_body :: "wake \<Rightarrow> worker \<Rightarrow> outcome" where
  "loop_body e w =
     (let w1 = deliver (pre_wait e) w;
          rc = Latch_wait (MyLatch w1) wake_events e;
          w2 = emit [WaitLatch wake_events (wait_timeout (cachemgr_sleep_time w1))] w1;
          w3 = deliver (before_reset e) (deliver (in_wait e) w2);
          w4 = emit [ResetLatch] (w3\<lparr>MyLatch := Latch_reset (MyLatch w3)\<rparr>)
      in if rc AND WL_POSTMASTER_DEATH \<noteq> 0 then Exited 1 (emit [proc_exit 1] w4)
         else
           let w5 = deliver (after_reset e) (emit [CHECK_FOR_INTERRUPTS] w4);
               w6 = (if got_sighup w5
                     then emit [ProcessConfigFile PGC_SIGHUP]
                            (w5\<lparr>got_sighup := False,
                                cachemgr_sleep_time :=
                                  guc_assign sleep_time_guc (cachemgr_sleep_time w5)
                                    (guc_load sleep_time_guc (conf_reload e))\<rparr>)
                     else w5);
               w7 = deliver (in_work e) (emit work_begin w6)
           in Running (emit work_end w7))"

text \<open>
  The main loop over the iterations the host's script describes. The loop has no bound
  of its own: when the script is used up and the loop test still lets it go on, the
  result is \<open>Running\<close>, the worker about to wait again.
\<close>

fun main_loop :: "wake list \<Rightarrow> worker \<Rightarrow> outcome" where
  "main_loop [] w =
     (if got_sigterm w then Exited 1 (emit [proc_exit 1] w) else Running w)"
| "main_loop (e # es) w =
     (if got_sigterm w then Exited 1 (emit [proc_exit 1] w)
      else case loop_body e w of
             Running w' \<Rightarrow> main_loop es w'
           | Exited n w' \<Rightarrow> Exited n w')"

text \<open>
  The answers of the host to \<^verbatim>\<open>cachemgr_main\<close>: the state of the latch and the value of
  the configuration variable when the process starts, the signals that arrive between
  \<^verbatim>\<open>BackgroundWorkerUnblockSignals\<close> and the first loop test, and the iterations.
\<close>

record main_host =
  latch_at_start :: bool
  sleep_time_at_start :: int
  in_init :: "signal list"
  wakes :: "wake list"

definition cachemgr_main :: "int \<Rightarrow> main_host \<Rightarrow> outcome" where
  "cachemgr_main main_arg h =
     (let w0 = \<lparr>got_sighup = False, got_sigterm = False, MyLatch = latch_at_start h,
                cachemgr_sleep_time = sleep_time_at_start h, calls = []\<rparr>;
          w1 = emit [pqsignal SIGHUP, pqsignal SIGTERM, BackgroundWorkerUnblockSignals,
                     BackgroundWorkerInitializeConnection ''postgres''] w0
      in main_loop (wakes h) (deliver (in_init h) (initialize_cachemgr w1)))"

section \<open>Auxiliary lemmas\<close>

subsection \<open>The registration loop\<close>

lemma numbered_numbered: "numbered (numbered w i) j = numbered w j"
  by (simp add: numbered_def)

lemma le_word_nat:
  assumes "k < 2 ^ 31" "m < 2 ^ 31"
  shows "((of_nat k :: 32 word) \<le> word_of_int (int m)) = (k \<le> m)"
  using assms
  by (simp add: word_le_nat_alt unat_of_nat take_bit_nat_eq_self)

lemma sint_of_nat32:
  assumes "k < 2 ^ 31"
  shows "sint (of_nat k :: 32 word) = int k"
proof -
  have "sint (of_nat k :: 32 word) = sint (word_of_int (int k) :: 32 word)" by simp
  also have "\<dots> = signed_take_bit 31 (int k)" by (simp only: sint_sbintrunc') simp
  also have "\<dots> = int k" using assms by (simp add: signed_take_bit_int_eq_self)
  finally show ?thesis .
qed

lemma register_workers_range:
  "k \<le> Suc m \<Longrightarrow> m < 2 ^ 31 - 1 \<Longrightarrow>
   register_workers w (of_nat k) (int m) cs =
     Some (cs @ map (\<lambda>j. RegisterBackgroundWorker (numbered w (of_nat j))) [k..<Suc m])"
proof (induction "Suc m - k" arbitrary: k w cs)
  case 0
  then have k: "k = Suc m" by simp
  have "k < 2 ^ 31" "m < 2 ^ 31" using "0.prems" k by simp_all
  then have "((of_nat k :: 32 word) \<le> word_of_int (int m)) = (k \<le> m)"
    by (rule le_word_nat)
  then have "\<not> ((of_nat k :: 32 word) \<le> word_of_int (int m))"
    using k by simp
  then show ?case
    using k by (subst register_workers.simps) simp
next
  case (Suc d)
  then have le: "k \<le> m" by simp
  have "k < 2 ^ 31" "m < 2 ^ 31" using Suc.prems le by simp_all
  then have "((of_nat k :: 32 word) \<le> word_of_int (int m)) = (k \<le> m)"
    by (rule le_word_nat)
  then have cond: "(of_nat k :: 32 word) \<le> word_of_int (int m)"
    using le by simp
  have step: "(of_nat k :: 32 word) + 1 = of_nat (Suc k)" by simp
  have IH: "register_workers (numbered w (of_nat k)) (of_nat (Suc k)) (int m)
              (cs @ [RegisterBackgroundWorker (numbered w (of_nat k))]) =
            Some ((cs @ [RegisterBackgroundWorker (numbered w (of_nat k))]) @
              map (\<lambda>j. RegisterBackgroundWorker (numbered (numbered w (of_nat k)) (of_nat j)))
                [Suc k..<Suc m])"
    using Suc.hyps(2) Suc.prems le by (intro Suc.hyps(1)) simp_all
  have upt: "[k..<Suc m] = k # [Suc k..<Suc m]"
    using le by (simp add: upt_conv_Cons)
  show ?case
    apply (subst register_workers.simps)
    apply (simp only: cond if_True step IH)
    apply (simp add: numbered_numbered upt del: upt_Suc)
    done
qed

lemma PG_init_preload:
  assumes "process_shared_preload_libraries_in_progress h"
    and "guc_assign worker_count_guc 1 (guc_load worker_count_guc (conf_worker_count h)) = int m"
    and "m \<le> 50"
  shows "PG_init h =
    Some \<lparr>init_sleep_time = guc_assign sleep_time_guc 10 (guc_load sleep_time_guc (conf_sleep_time h)),
          init_worker_count = int m,
          init_calls =
            [DefineCustomIntVariable sleep_time_guc (guc_load sleep_time_guc (conf_sleep_time h)),
             DefineCustomIntVariable worker_count_guc
               (guc_load worker_count_guc (conf_worker_count h))]
            @ map (\<lambda>j. RegisterBackgroundWorker (numbered static_worker (of_nat j)))
                [1..<Suc m]\<rparr>"
proof -
  have "register_workers static_worker (of_nat 1) (int m)
          [DefineCustomIntVariable sleep_time_guc (guc_load sleep_time_guc (conf_sleep_time h)),
           DefineCustomIntVariable worker_count_guc
             (guc_load worker_count_guc (conf_worker_count h))]
        = Some ([DefineCustomIntVariable sleep_time_guc (guc_load sleep_time_guc (conf_sleep_time h)),
           DefineCustomIntVariable worker_count_guc
             (guc_load worker_count_guc (conf_worker_count h))]
            @ map (\<lambda>j. RegisterBackgroundWorker (numbered static_worker (of_nat j)))
                [1..<Suc m])"
    using assms(3) by (intro register_workers_range) simp_all
  then show ?thesis
    using assms(1,2) by (simp add: PG_init_def Let_def)
qed

lemma registered_map:
  "registered (cs @ map (\<lambda>j. RegisterBackgroundWorker (f j)) js) = registered cs @ map f js"
  by (induction cs rule: registered.induct) (simp_all, induction js, simp_all)

lemma main_arg_numbered:
  assumes "m < 2 ^ 31"
  shows "map bgw_main_arg (map (\<lambda>j. numbered w (of_nat j)) [k..<Suc m]) = map int [k..<Suc m]"
proof -
  have "bgw_main_arg (numbered w (of_nat j)) = int j" if "j \<in> set [k..<Suc m]" for j
  proof -
    from that have "j < 2 ^ 31" using assms by auto
    then show ?thesis by (simp add: numbered_def sint_of_nat32)
  qed
  then show ?thesis
    unfolding map_map comp_def by (intro map_cong [OF refl])
qed

subsection \<open>Signal delivery and the iterations of the main loop\<close>

lemma emit_fields [simp]:
  "calls (emit cs w) = calls w @ cs"
  "got_sigterm (emit cs w) = got_sigterm w"
  "got_sighup (emit cs w) = got_sighup w"
  "MyLatch (emit cs w) = MyLatch w"
  "cachemgr_sleep_time (emit cs w) = cachemgr_sleep_time w"
  by (simp_all add: emit_def)

lemma handler_fields [simp]:
  "calls (handler sg w) = calls w"
  "cachemgr_sleep_time (handler sg w) = cachemgr_sleep_time w"
  "got_sigterm (handler sg w) = (got_sigterm w \<or> sg = SIGTERM)"
  "got_sighup (handler sg w) = (got_sighup w \<or> sg = SIGHUP)"
  "MyLatch (handler sg w) = True"
  by (cases sg; simp add: cachemgr_sigterm_def cachemgr_sighup_def Latch_set_def)+

lemma deliver_calls [simp]: "calls (deliver sigs w) = calls w"
  unfolding deliver_def by (induction sigs arbitrary: w) simp_all

lemma deliver_sleep_time [simp]:
  "cachemgr_sleep_time (deliver sigs w) = cachemgr_sleep_time w"
  unfolding deliver_def by (induction sigs arbitrary: w) simp_all

lemma deliver_got_sigterm [simp]:
  "got_sigterm (deliver sigs w) = (got_sigterm w \<or> SIGTERM \<in> set sigs)"
  unfolding deliver_def by (induction sigs arbitrary: w) auto

lemma deliver_got_sighup [simp]:
  "got_sighup (deliver sigs w) = (got_sighup w \<or> SIGHUP \<in> set sigs)"
  unfolding deliver_def by (induction sigs arbitrary: w) auto

lemma deliver_MyLatch [simp]:
  "MyLatch (deliver sigs w) = (MyLatch w \<or> sigs \<noteq> [])"
  unfolding deliver_def by (induction sigs arbitrary: w) auto

lemma wait_timeout_exact:
  assumes "- (2 ^ 31) \<le> t" "t < 2 ^ 31"
  shows "wait_timeout t = t * 1000"
proof -
  have "wait_timeout t = sint (word_of_int (t * 1000) :: 64 word)"
    by (simp add: wait_timeout_def)
  also have "\<dots> = signed_take_bit 63 (t * 1000)" by (simp only: sint_sbintrunc') simp
  also have "\<dots> = t * 1000" using assms by (simp add: signed_take_bit_int_eq_self)
  finally show ?thesis .
qed

lemma loop_body_death:
  assumes "wait_result e w AND WL_POSTMASTER_DEATH \<noteq> 0"
  shows "\<exists>w'. loop_body e w = Exited 1 w'
           \<and> calls w' = calls w @ [WaitLatch wake_events (wait_timeout (cachemgr_sleep_time w)),
                                   ResetLatch, proc_exit 1]"
  using assms by (simp add: loop_body_def wait_result_def Let_def)

lemma loop_body_alive:
  assumes "wait_result e w AND WL_POSTMASTER_DEATH = 0"
  shows "loop_body e w =
     (let w1 = deliver (pre_wait e) w;
          w2 = emit [WaitLatch wake_events (wait_timeout (cachemgr_sleep_time w1))] w1;
          w3 = deliver (before_reset e) (deliver (in_wait e) w2);
          w4 = emit [ResetLatch] (w3\<lparr>MyLatch := Latch_reset (MyLatch w3)\<rparr>);
          w5 = deliver (after_reset e) (emit [CHECK_FOR_INTERRUPTS] w4);
          w6 = (if got_sighup w5
                     then emit [ProcessConfigFile PGC_SIGHUP]
                            (w5\<lparr>got_sighup := False,
                                cachemgr_sleep_time :=
                                  guc_assign sleep_time_guc (cachemgr_sleep_time w5)
                                    (guc_load sleep_time_guc (conf_reload e))\<rparr>)
                     else w5);
          w7 = deliver (in_work e) (emit work_begin w6)
      in Running (emit work_end w7))"
  using assms by (simp add: loop_body_def wait_result_def Let_def)

lemma loop_body_running:
  assumes "wait_result e w AND WL_POSTMASTER_DEATH = 0"
  shows "\<exists>w'. loop_body e w = Running w'
     \<and> calls w' =
              calls w @ [WaitLatch wake_events (wait_timeout (cachemgr_sleep_time w)),
                         ResetLatch, CHECK_FOR_INTERRUPTS]
              @ (if got_sighup w
                    \<or> SIGHUP \<in> set (pre_wait e @ in_wait e @ before_reset e @ after_reset e)
                 then [ProcessConfigFile PGC_SIGHUP] else [])
              @ [SetCurrentStatementStartTimestamp, StartTransactionCommand, SPI_connect,
                 PushActiveSnapshot, pgstat_report_activity STATE_RUNNING (Some ''Foobar''),
                 SPI_finish, PopActiveSnapshot, CommitTransactionCommand,
                 pgstat_report_stat False, pgstat_report_activity STATE_IDLE None]
     \<and> got_sigterm w' = (got_sigterm w
          \<or> SIGTERM \<in> set (pre_wait e @ in_wait e @ before_reset e @ after_reset e @ in_work e))
     \<and> got_sighup w' = (SIGHUP \<in> set (in_work e))
     \<and> MyLatch w' = (after_reset e \<noteq> [] \<or> in_work e \<noteq> [])"
  using assms
  by (simp add: loop_body_alive Let_def Latch_reset_def work_begin_def work_end_def)

lemma bits [simp]:
  "WL_LATCH_SET AND WL_POSTMASTER_DEATH = 0"
  "WL_TIMEOUT AND WL_POSTMASTER_DEATH = 0"
  "WL_POSTMASTER_DEATH \<noteq> 0"
  "WL_LATCH_SET AND wake_events = WL_LATCH_SET"
  "WL_TIMEOUT AND wake_events = WL_TIMEOUT"
  "WL_POSTMASTER_DEATH AND wake_events = WL_POSTMASTER_DEATH"
  "WL_TIMEOUT \<noteq> WL_LATCH_SET"
  by (simp_all add: WL_LATCH_SET_def WL_TIMEOUT_def WL_POSTMASTER_DEATH_def wake_events_def)

lemma wait_timeout_10 [simp]: "wait_timeout 10 = 10000"
  by (simp add: wait_timeout_exact)

lemma main_loop_sigterm:
  "got_sigterm w \<Longrightarrow> main_loop es w = Exited 1 (emit [proc_exit 1] w)"
  by (cases es) simp_all

lemma wait_result_in_work [simp]:
  "wait_result (e\<lparr>in_work := sigs\<rparr>) w = wait_result e w"
  by (simp add: wait_result_def Latch_wait_def)

lemma loop_body_exit_status:
  "exit_status (loop_body e w) = None \<or> exit_status (loop_body e w) = Some 1"
  by (simp add: loop_body_def Let_def)

lemma main_loop_exit_status:
  "exit_status (main_loop es w) = None \<or> exit_status (main_loop es w) = Some 1"
proof (induction es arbitrary: w)
  case Nil
  then show ?case by simp
next
  case (Cons e es)
  show ?case
  proof (cases "got_sigterm w")
    case True
    then show ?thesis by simp
  next
    case False
    show ?thesis
    proof (cases "loop_body e w")
      case (Running w')
      with False Cons.IH [of w'] show ?thesis by simp
    next
      case (Exited n w')
      with False loop_body_exit_status [of e w] show ?thesis by simp
    qed
  qed
qed

lemma cachemgr_main_exit_status:
  "exit_status (cachemgr_main a h) = None \<or> exit_status (cachemgr_main a h) = Some 1"
  using main_loop_exit_status
  by (simp add: cachemgr_main_def Let_def)



section \<open>Properties of the dynamic launch\<close>

text \<open>
  C1, as the specification states it: a launch whose worker reports the death of the
  postmaster fails with an error kind distinct from the one of a worker that stopped. In
  the code both \<^verbatim>\<open>ereport\<close> calls pass \<^verbatim>\<open>ERRCODE_INSUFFICIENT_RESOURCES\<close>: at the same
  index and host, the two results carry the same error code.
\<close>

theorem launch_error_codes_coincide:
  "error_code (snd (cachemgr_launch 1
      \<lparr>register_ok = True, startup_status = BGWH_POSTMASTER_DIED, startup_pid = 0,
       MyProcPid = 4242, assert_checking = True\<rparr>))
   = error_code (snd (cachemgr_launch 1
      \<lparr>register_ok = True, startup_status = BGWH_STOPPED, startup_pid = 0,
       MyProcPid = 4242, assert_checking = True\<rparr>))"
  by (simp add: cachemgr_launch_def no_postmaster_def could_not_start_def)

text \<open>
  C1, amended: once the host has accepted the registration, the status after the wait
  decides the outcome. \<^verbatim>\<open>BGWH_STOPPED\<close> raises an error with the code
  \<^verbatim>\<open>ERRCODE_INSUFFICIENT_RESOURCES\<close> and the message "Could not start background
  process"; \<^verbatim>\<open>BGWH_POSTMASTER_DIED\<close> raises an error with the same code, told apart
  from the first by its message and hint only; \<^verbatim>\<open>BGWH_STARTED\<close> returns the reported pid.
\<close>

theorem launch_outcome_by_status:
  "register_ok h \<Longrightarrow>
     (startup_status h = BGWH_STOPPED \<longrightarrow>
        snd (cachemgr_launch i h) = ERROR could_not_start)
     \<and> (startup_status h = BGWH_POSTMASTER_DIED \<longrightarrow>
        snd (cachemgr_launch i h) = ERROR no_postmaster)
     \<and> (startup_status h = BGWH_STARTED \<longrightarrow>
        snd (cachemgr_launch i h) = RETURN_INT32 (startup_pid h))
     \<and> sqlerrcode could_not_start = ERRCODE_INSUFFICIENT_RESOURCES
     \<and> message could_not_start = ''Could not start background process''
     \<and> sqlerrcode no_postmaster = sqlerrcode could_not_start
     \<and> message no_postmaster \<noteq> message could_not_start
     \<and> hint no_postmaster \<noteq> hint could_not_start"
  by (simp add: cachemgr_launch_def could_not_start_def no_postmaster_def)

theorem launch_outcome_by_status_witness:
  "snd (cachemgr_launch 3
        \<lparr>register_ok = True, startup_status = BGWH_STARTED, startup_pid = 777,
         MyProcPid = 4242, assert_checking = True\<rparr>) = RETURN_INT32 777
   \<and> snd (cachemgr_launch 3
        \<lparr>register_ok = True, startup_status = BGWH_STOPPED, startup_pid = 0,
         MyProcPid = 4242, assert_checking = True\<rparr>) = ERROR could_not_start
   \<and> snd (cachemgr_launch 3
        \<lparr>register_ok = True, startup_status = BGWH_POSTMASTER_DIED, startup_pid = 0,
         MyProcPid = 4242, assert_checking = True\<rparr>) = ERROR no_postmaster"
  using
    launch_outcome_by_status
      [of "\<lparr>register_ok = True, startup_status = BGWH_STARTED, startup_pid = 777,
           MyProcPid = 4242, assert_checking = True\<rparr>" 3]
    launch_outcome_by_status
      [of "\<lparr>register_ok = True, startup_status = BGWH_STOPPED, startup_pid = 0,
           MyProcPid = 4242, assert_checking = True\<rparr>" 3]
    launch_outcome_by_status
      [of "\<lparr>register_ok = True, startup_status = BGWH_POSTMASTER_DIED, startup_pid = 0,
           MyProcPid = 4242, assert_checking = True\<rparr>" 3]
  by simp

text \<open>
  C9: when the host refuses the dynamic registration, the launch returns SQL NULL. The
  only host call made is the registration request (no wait on a worker handle), and the
  result is neither a pid nor an error.
\<close>

theorem launch_refused_returns_null:
  "\<not> register_ok h \<Longrightarrow>
     cachemgr_launch i h = ([RegisterDynamicBackgroundWorker (launch_worker i h)], RETURN_NULL)
     \<and> WaitForBackgroundWorkerStartup \<notin> set (fst (cachemgr_launch i h))
     \<and> (\<forall>pid. snd (cachemgr_launch i h) \<noteq> RETURN_INT32 pid)
     \<and> (\<forall>e. snd (cachemgr_launch i h) \<noteq> ERROR e)"
  by (simp add: cachemgr_launch_def)

theorem launch_refused_returns_null_witness:
  "\<not> register_ok \<lparr>register_ok = False, startup_status = BGWH_STARTED, startup_pid = 777,
       MyProcPid = 4242, assert_checking = True\<rparr>
   \<and> snd (cachemgr_launch 3
        \<lparr>register_ok = False, startup_status = BGWH_STARTED, startup_pid = 777,
         MyProcPid = 4242, assert_checking = True\<rparr>) = RETURN_NULL"
  using launch_refused_returns_null
    [of "\<lparr>register_ok = False, startup_status = BGWH_STARTED, startup_pid = 777,
         MyProcPid = 4242, assert_checking = True\<rparr>" 3]
  by simp

section \<open>Properties of the static registration\<close>

text \<open>
  C5, as the specification states it: for every configured worker count in [1,50] the
  initialization of the module registers exactly that many workers. \<^verbatim>\<open>_PG_init\<close> returns
  at \<^verbatim>\<open>if( !process_shared_preload_libraries_in_progress )\<close> when the library is loaded
  at any other time than the preload: with a configured count of 3 it then defines only
  \<^verbatim>\<open>cachemgr.sleep_time\<close> and registers no worker.
\<close>

theorem no_registration_outside_preload:
  "PG_init \<lparr>process_shared_preload_libraries_in_progress = False,
            conf_sleep_time = None, conf_worker_count = Some 3\<rparr>
   = Some \<lparr>init_sleep_time = 10, init_worker_count = 1,
           init_calls = [DefineCustomIntVariable sleep_time_guc GUC_unset]\<rparr>"
  by (simp add: PG_init_def guc_load_def sleep_time_guc_def)

text \<open>
  C5, amended: when the module is initialized while \<^verbatim>\<open>shared_preload_libraries\<close> is
  processed, a configured worker count \<open>n\<close> in [1,50] makes \<^verbatim>\<open>_PG_init\<close> register
  exactly \<open>n\<close> workers, with the arguments 1 to \<open>n\<close> (the unsigned loop counter is not
  off by one there); a count outside [1,50] is rejected when the variable is defined,
  which comes before every registration call, and the variable keeps its boot value 1.
  When the module is initialized at any other time, \<^verbatim>\<open>_PG_init\<close> defines
  \<^verbatim>\<open>cachemgr.sleep_time\<close> only and registers no worker.
\<close>

theorem static_registration:
  "(process_shared_preload_libraries_in_progress h \<and> conf_worker_count h = Some n
      \<and> 1 \<le> n \<and> n \<le> 50 \<longrightarrow>
      (\<exists>s. PG_init h = Some s \<and> init_worker_count s = n
            \<and> length (registered (init_calls s)) = nat n
            \<and> map bgw_main_arg (registered (init_calls s)) = map int [1..<Suc (nat n)]))
   \<and> (process_shared_preload_libraries_in_progress h \<and> conf_worker_count h = Some n
      \<and> (n < 1 \<or> 50 < n) \<longrightarrow>
      (\<exists>s. PG_init h = Some s \<and> init_worker_count s = 1
            \<and> init_calls s =
                [DefineCustomIntVariable sleep_time_guc
                   (guc_load sleep_time_guc (conf_sleep_time h)),
                 DefineCustomIntVariable worker_count_guc (GUC_rejected n),
                 RegisterBackgroundWorker (numbered static_worker 1)]))
   \<and> (\<not> process_shared_preload_libraries_in_progress h \<longrightarrow>
      (\<exists>s. PG_init h = Some s
            \<and> init_calls s =
                [DefineCustomIntVariable sleep_time_guc
                   (guc_load sleep_time_guc (conf_sleep_time h))]
            \<and> registered (init_calls s) = []))"
proof (intro conjI impI)
  assume a: "process_shared_preload_libraries_in_progress h \<and> conf_worker_count h = Some n
      \<and> 1 \<le> n \<and> n \<le> 50"
  then have load: "guc_assign worker_count_guc 1
      (guc_load worker_count_guc (conf_worker_count h)) = int (nat n)"
    by (simp add: guc_load_def worker_count_guc_def)
  have m50: "nat n \<le> 50" using a by linarith
  then have m31: "nat n < 2 ^ 31" by simp
  note m = m50 m31
  note init = PG_init_preload [OF _ load m(1)]
  define s where "s = the (PG_init h)"
  have s: "PG_init h = Some s" "init_worker_count s = n"
    using a init by (simp_all add: s_def)
  have "init_calls s =
      [DefineCustomIntVariable sleep_time_guc (guc_load sleep_time_guc (conf_sleep_time h)),
       DefineCustomIntVariable worker_count_guc
         (guc_load worker_count_guc (conf_worker_count h))]
      @ map (\<lambda>j. RegisterBackgroundWorker (numbered static_worker (of_nat j)))
          [1..<Suc (nat n)]"
    using a init by (simp add: s_def)
  then have reg: "registered (init_calls s) =
      map (\<lambda>j. numbered static_worker (of_nat j)) [1..<Suc (nat n)]"
    by (simp only: registered_map) simp
  have len: "length (registered (init_calls s)) = nat n"
    unfolding reg by simp
  have args: "map bgw_main_arg (registered (init_calls s)) = map int [1..<Suc (nat n)]"
    unfolding reg by (rule main_arg_numbered [OF m(2)])
  show "\<exists>s. PG_init h = Some s \<and> init_worker_count s = n
            \<and> length (registered (init_calls s)) = nat n
            \<and> map bgw_main_arg (registered (init_calls s)) = map int [1..<Suc (nat n)]"
    using s len args by blast
next
  assume a: "process_shared_preload_libraries_in_progress h \<and> conf_worker_count h = Some n
      \<and> (n < 1 \<or> 50 < n)"
  then have out: "guc_load worker_count_guc (conf_worker_count h) = GUC_rejected n"
    by (auto simp add: guc_load_def worker_count_guc_def)
  then have load: "guc_assign worker_count_guc 1
      (guc_load worker_count_guc (conf_worker_count h)) = int 1"
    by simp
  show "\<exists>s. PG_init h = Some s \<and> init_worker_count s = 1
            \<and> init_calls s =
                [DefineCustomIntVariable sleep_time_guc
                   (guc_load sleep_time_guc (conf_sleep_time h)),
                 DefineCustomIntVariable worker_count_guc (GUC_rejected n),
                 RegisterBackgroundWorker (numbered static_worker 1)]"
    using a PG_init_preload [OF _ load] out by simp
next
  assume "\<not> process_shared_preload_libraries_in_progress h"
  then show "\<exists>s. PG_init h = Some s
            \<and> init_calls s =
                [DefineCustomIntVariable sleep_time_guc
                   (guc_load sleep_time_guc (conf_sleep_time h))]
            \<and> registered (init_calls s) = []"
    by (simp add: PG_init_def Let_def)
qed

theorem static_registration_witness:
  "(\<exists>s. PG_init \<lparr>process_shared_preload_libraries_in_progress = True,
                 conf_sleep_time = None, conf_worker_count = Some 3\<rparr> = Some s
        \<and> map bgw_main_arg (registered (init_calls s)) = [1, 2, 3])
   \<and> (\<exists>s. PG_init \<lparr>process_shared_preload_libraries_in_progress = True,
                 conf_sleep_time = None, conf_worker_count = Some 51\<rparr> = Some s
        \<and> init_worker_count s = 1)
   \<and> (\<exists>s. PG_init \<lparr>process_shared_preload_libraries_in_progress = False,
                 conf_sleep_time = None, conf_worker_count = Some 3\<rparr> = Some s
        \<and> registered (init_calls s) = [])"
  using
    static_registration [of "\<lparr>process_shared_preload_libraries_in_progress = True,
                 conf_sleep_time = None, conf_worker_count = Some 3\<rparr>" 3]
    static_registration [of "\<lparr>process_shared_preload_libraries_in_progress = True,
                 conf_sleep_time = None, conf_worker_count = Some 51\<rparr>" 51]
    static_registration [of "\<lparr>process_shared_preload_libraries_in_progress = False,
                 conf_sleep_time = None, conf_worker_count = Some 3\<rparr>" 3]
  by (auto simp add: upt_rec)

section \<open>Properties of the main loop\<close>

text \<open>
  C2, as the specification states it: a termination request seen when the loop wakes
  from its wait ends the loop without a further work cycle. The code tests
  \<^verbatim>\<open>got_sigterm\<close> in the loop condition only: when \<^verbatim>\<open>SIGTERM\<close> arrives while the worker
  waits, the iteration goes on through a whole work cycle before \<^verbatim>\<open>proc_exit\<close>.
\<close>

theorem woken_by_sigterm_still_works:
  "main_loop
     [\<lparr>pre_wait = [], woken = 0, in_wait = [SIGTERM], before_reset = [],
       after_reset = [], conf_reload = None, in_work = []\<rparr>]
     \<lparr>got_sighup = False, got_sigterm = False, MyLatch = False,
      cachemgr_sleep_time = 10, calls = []\<rparr>
   = Exited 1
     \<lparr>got_sighup = False, got_sigterm = True, MyLatch = False, cachemgr_sleep_time = 10,
      calls = [WaitLatch wake_events 10000, ResetLatch, CHECK_FOR_INTERRUPTS,
               SetCurrentStatementStartTimestamp, StartTransactionCommand, SPI_connect,
               PushActiveSnapshot, pgstat_report_activity STATE_RUNNING (Some ''Foobar''),
               SPI_finish, PopActiveSnapshot, CommitTransactionCommand,
               pgstat_report_stat False, pgstat_report_activity STATE_IDLE None,
               proc_exit 1]\<rparr>"
  by (simp add: loop_body_def Let_def Latch_wait_def Latch_reset_def Latch_set_def deliver_def
      cachemgr_sigterm_def emit_def work_begin_def work_end_def)

text \<open>
  C2, amended: when \<^verbatim>\<open>got_sigterm\<close> is set at the loop test, the loop ends with
  \<^verbatim>\<open>proc_exit( 1 )\<close> and runs no further wait or work cycle. When \<^verbatim>\<open>SIGTERM\<close> arrives
  between the loop test and the test of \<^verbatim>\<open>got_sighup\<close> (before or during the wait, or
  around the reset) and the postmaster is alive, the iteration still runs its work cycle
  to the end, and the loop ends at the next loop test.
\<close>

theorem termination_seen_at_loop_test:
  "(got_sigterm w \<longrightarrow> main_loop es w = Exited 1 (emit [proc_exit 1] w))
   \<and> (\<not> got_sigterm w \<and> wait_result e w AND WL_POSTMASTER_DEATH = 0
       \<and> SIGTERM \<in> set (pre_wait e @ in_wait e @ before_reset e @ after_reset e) \<longrightarrow>
       (\<exists>w'. loop_body e w = Running w'
          \<and> calls w' =
              calls w @ [WaitLatch wake_events (wait_timeout (cachemgr_sleep_time w)),
                         ResetLatch, CHECK_FOR_INTERRUPTS]
              @ (if got_sighup w
                    \<or> SIGHUP \<in> set (pre_wait e @ in_wait e @ before_reset e @ after_reset e)
                 then [ProcessConfigFile PGC_SIGHUP] else [])
              @ [SetCurrentStatementStartTimestamp, StartTransactionCommand, SPI_connect,
                 PushActiveSnapshot, pgstat_report_activity STATE_RUNNING (Some ''Foobar''),
                 SPI_finish, PopActiveSnapshot, CommitTransactionCommand,
                 pgstat_report_stat False, pgstat_report_activity STATE_IDLE None]
          \<and> main_loop (e # es) w = Exited 1 (emit [proc_exit 1] w')))"
proof (intro conjI impI)
  assume "got_sigterm w"
  then show "main_loop es w = Exited 1 (emit [proc_exit 1] w)"
    by (rule main_loop_sigterm)
next
  assume a: "\<not> got_sigterm w \<and> wait_result e w AND WL_POSTMASTER_DEATH = 0
       \<and> SIGTERM \<in> set (pre_wait e @ in_wait e @ before_reset e @ after_reset e)"
  then obtain w' where w': "loop_body e w = Running w'"
    "calls w' =
              calls w @ [WaitLatch wake_events (wait_timeout (cachemgr_sleep_time w)),
                         ResetLatch, CHECK_FOR_INTERRUPTS]
              @ (if got_sighup w
                    \<or> SIGHUP \<in> set (pre_wait e @ in_wait e @ before_reset e @ after_reset e)
                 then [ProcessConfigFile PGC_SIGHUP] else [])
              @ [SetCurrentStatementStartTimestamp, StartTransactionCommand, SPI_connect,
                 PushActiveSnapshot, pgstat_report_activity STATE_RUNNING (Some ''Foobar''),
                 SPI_finish, PopActiveSnapshot, CommitTransactionCommand,
                 pgstat_report_stat False, pgstat_report_activity STATE_IDLE None]"
    "got_sigterm w' = (got_sigterm w
        \<or> SIGTERM \<in> set (pre_wait e @ in_wait e @ before_reset e @ after_reset e @ in_work e))"
    using loop_body_running [of e w] by blast
  from a w'(3) have "got_sigterm w'" by auto
  then have "main_loop es w' = Exited 1 (emit [proc_exit 1] w')"
    by (rule main_loop_sigterm)
  with a w'(1) have "main_loop (e # es) w = Exited 1 (emit [proc_exit 1] w')"
    by simp
  with w'(1,2) show "\<exists>w'. loop_body e w = Running w'
          \<and> calls w' =
              calls w @ [WaitLatch wake_events (wait_timeout (cachemgr_sleep_time w)),
                         ResetLatch, CHECK_FOR_INTERRUPTS]
              @ (if got_sighup w
                    \<or> SIGHUP \<in> set (pre_wait e @ in_wait e @ before_reset e @ after_reset e)
                 then [ProcessConfigFile PGC_SIGHUP] else [])
              @ [SetCurrentStatementStartTimestamp, StartTransactionCommand, SPI_connect,
                 PushActiveSnapshot, pgstat_report_activity STATE_RUNNING (Some ''Foobar''),
                 SPI_finish, PopActiveSnapshot, CommitTransactionCommand,
                 pgstat_report_stat False, pgstat_report_activity STATE_IDLE None]
          \<and> main_loop (e # es) w = Exited 1 (emit [proc_exit 1] w')"
    by blast
qed

theorem termination_seen_at_loop_test_witness:
  "main_loop []
     \<lparr>got_sighup = False, got_sigterm = True, MyLatch = True,
      cachemgr_sleep_time = 10, calls = []\<rparr>
   = Exited 1 (emit [proc_exit 1] \<lparr>got_sighup = False, got_sigterm = True, MyLatch = True,
      cachemgr_sleep_time = 10, calls = []\<rparr>)
   \<and> (\<exists>w'. loop_body
         \<lparr>pre_wait = [], woken = 0, in_wait = [SIGTERM], before_reset = [],
          after_reset = [], conf_reload = None, in_work = []\<rparr>
         \<lparr>got_sighup = False, got_sigterm = False, MyLatch = False,
          cachemgr_sleep_time = 10, calls = []\<rparr> = Running w'
       \<and> main_loop
         [\<lparr>pre_wait = [], woken = 0, in_wait = [SIGTERM], before_reset = [],
          after_reset = [], conf_reload = None, in_work = []\<rparr>]
         \<lparr>got_sighup = False, got_sigterm = False, MyLatch = False,
          cachemgr_sleep_time = 10, calls = []\<rparr> = Exited 1 (emit [proc_exit 1] w'))"
proof -
  let ?t = "\<lparr>got_sighup = False, got_sigterm = True, MyLatch = True,
      cachemgr_sleep_time = 10, calls = []\<rparr>"
  let ?w = "\<lparr>got_sighup = False, got_sigterm = False, MyLatch = False,
          cachemgr_sleep_time = 10, calls = []\<rparr>"
  let ?e = "\<lparr>pre_wait = [], woken = 0, in_wait = [SIGTERM], before_reset = [],
          after_reset = [], conf_reload = None, in_work = []\<rparr>"
  have t: "got_sigterm ?t" by simp
  have w: "\<not> got_sigterm ?w \<and> wait_result ?e ?w AND WL_POSTMASTER_DEATH = 0
       \<and> SIGTERM \<in> set (pre_wait ?e @ in_wait ?e @ before_reset ?e @ after_reset ?e)"
    by (simp add: wait_result_def Latch_wait_def deliver_def)
  from t termination_seen_at_loop_test [of ?t "[]"]
  have "main_loop [] ?t = Exited 1 (emit [proc_exit 1] ?t)" by blast
  moreover from w termination_seen_at_loop_test [of ?w "[]" ?e]
  have "\<exists>w'. loop_body ?e ?w = Running w'
       \<and> main_loop [?e] ?w = Exited 1 (emit [proc_exit 1] w')" by blast
  ultimately show ?thesis by blast
qed

text \<open>
  C3: the timeout passed to \<^verbatim>\<open>WaitLatch\<close>, which the host reads in milliseconds, is
  \<^verbatim>\<open>cachemgr_sleep_time * 1000L\<close>, while the variable is documented as a duration in
  milliseconds: with the boot value 10 the worker waits 10000 ms.
\<close>

theorem default_sleep_time_waits_ten_seconds:
  "(\<exists>later. calls (state_of (loop_body e w)) =
       calls w @ WaitLatch wake_events (wait_timeout (cachemgr_sleep_time w)) # later)
   \<and> wait_timeout (bootValue sleep_time_guc) = 10000
   \<and> short_desc sleep_time_guc = ''Duration between invalidation peeks (ms)''"
  by (simp add: sleep_time_guc_def loop_body_def Let_def)

text \<open>
  C6: when \<^verbatim>\<open>SIGTERM\<close> arrives while the work cycle of an iteration runs, the
  iteration completes the cycle: after the calls that open it, \<^verbatim>\<open>SPI_finish\<close>,
  \<^verbatim>\<open>PopActiveSnapshot\<close>, \<^verbatim>\<open>CommitTransactionCommand\<close>, \<^verbatim>\<open>pgstat_report_stat\<close> and
  \<^verbatim>\<open>pgstat_report_activity\<close> are all called, the host calls of the iteration are those of
  the same iteration without the signal, and the loop then ends at the loop test: the
  only call after the cycle is \<^verbatim>\<open>proc_exit( 1 )\<close>.
\<close>

theorem cycle_completes_before_exit:
  assumes "\<not> got_sigterm w"
    and "wait_result e w AND WL_POSTMASTER_DEATH = 0"
    and "SIGTERM \<in> set (in_work e)"
  shows "\<exists>w'. loop_body e w = Running w'
           \<and> calls w' =
              calls w @ [WaitLatch wake_events (wait_timeout (cachemgr_sleep_time w)),
                         ResetLatch, CHECK_FOR_INTERRUPTS]
              @ (if got_sighup w
                    \<or> SIGHUP \<in> set (pre_wait e @ in_wait e @ before_reset e @ after_reset e)
                 then [ProcessConfigFile PGC_SIGHUP] else [])
              @ [SetCurrentStatementStartTimestamp, StartTransactionCommand, SPI_connect,
                 PushActiveSnapshot, pgstat_report_activity STATE_RUNNING (Some ''Foobar''),
                 SPI_finish, PopActiveSnapshot, CommitTransactionCommand,
                 pgstat_report_stat False, pgstat_report_activity STATE_IDLE None]
           \<and> calls w' = calls (state_of (loop_body (e\<lparr>in_work := []\<rparr>) w))
           \<and> main_loop (e # es) w = Exited 1 (emit [proc_exit 1] w')
           \<and> calls (state_of (main_loop (e # es) w)) = calls w' @ [proc_exit 1]"
proof -
  obtain w' where w': "loop_body e w = Running w'"
    "calls w' =
              calls w @ [WaitLatch wake_events (wait_timeout (cachemgr_sleep_time w)),
                         ResetLatch, CHECK_FOR_INTERRUPTS]
              @ (if got_sighup w
                    \<or> SIGHUP \<in> set (pre_wait e @ in_wait e @ before_reset e @ after_reset e)
                 then [ProcessConfigFile PGC_SIGHUP] else [])
              @ [SetCurrentStatementStartTimestamp, StartTransactionCommand, SPI_connect,
                 PushActiveSnapshot, pgstat_report_activity STATE_RUNNING (Some ''Foobar''),
                 SPI_finish, PopActiveSnapshot, CommitTransactionCommand,
                 pgstat_report_stat False, pgstat_report_activity STATE_IDLE None]"
    "got_sigterm w' = (got_sigterm w
        \<or> SIGTERM \<in> set (pre_wait e @ in_wait e @ before_reset e @ after_reset e @ in_work e))"
    using loop_body_running [OF assms(2)] by blast
  obtain v where v: "loop_body (e\<lparr>in_work := []\<rparr>) w = Running v"
    "calls v =
              calls w @ [WaitLatch wake_events (wait_timeout (cachemgr_sleep_time w)),
                         ResetLatch, CHECK_FOR_INTERRUPTS]
              @ (if got_sighup w
                    \<or> SIGHUP \<in> set (pre_wait e @ in_wait e @ before_reset e @ after_reset e)
                 then [ProcessConfigFile PGC_SIGHUP] else [])
              @ [SetCurrentStatementStartTimestamp, StartTransactionCommand, SPI_connect,
                 PushActiveSnapshot, pgstat_report_activity STATE_RUNNING (Some ''Foobar''),
                 SPI_finish, PopActiveSnapshot, CommitTransactionCommand,
                 pgstat_report_stat False, pgstat_report_activity STATE_IDLE None]"
    using loop_body_running [of "e\<lparr>in_work := []\<rparr>" w] assms(2) by auto
  have same: "calls w' = calls (state_of (loop_body (e\<lparr>in_work := []\<rparr>) w))"
    using w'(2) v by simp
  have "got_sigterm w'" using w'(3) assms(3) by simp
  then have "main_loop es w' = Exited 1 (emit [proc_exit 1] w')"
    by (rule main_loop_sigterm)
  then have ex: "main_loop (e # es) w = Exited 1 (emit [proc_exit 1] w')"
    using assms(1) w'(1) by simp
  then have last: "calls (state_of (main_loop (e # es) w)) = calls w' @ [proc_exit 1]"
    by simp
  from w'(1,2) same ex last show ?thesis by blast
qed

theorem cycle_completes_before_exit_witness:
  "main_loop
     [\<lparr>pre_wait = [], woken = WL_TIMEOUT, in_wait = [], before_reset = [],
       after_reset = [], conf_reload = None, in_work = [SIGTERM]\<rparr>,
      \<lparr>pre_wait = [], woken = WL_TIMEOUT, in_wait = [], before_reset = [],
       after_reset = [], conf_reload = None, in_work = []\<rparr>]
     \<lparr>got_sighup = False, got_sigterm = False, MyLatch = False,
      cachemgr_sleep_time = 10, calls = []\<rparr>
   = Exited 1
     \<lparr>got_sighup = False, got_sigterm = True, MyLatch = True, cachemgr_sleep_time = 10,
      calls = [WaitLatch wake_events 10000, ResetLatch, CHECK_FOR_INTERRUPTS,
               SetCurrentStatementStartTimestamp, StartTransactionCommand, SPI_connect,
               PushActiveSnapshot, pgstat_report_activity STATE_RUNNING (Some ''Foobar''),
               SPI_finish, PopActiveSnapshot, CommitTransactionCommand,
               pgstat_report_stat False, pgstat_report_activity STATE_IDLE None,
               proc_exit 1]\<rparr>"
proof -
  let ?w = "\<lparr>got_sighup = False, got_sigterm = False, MyLatch = False,
          cachemgr_sleep_time = 10, calls = []\<rparr>"
  let ?e = "\<lparr>pre_wait = [], woken = WL_TIMEOUT, in_wait = [], before_reset = [],
          after_reset = [], conf_reload = None, in_work = [SIGTERM]\<rparr>"
  let ?q = "\<lparr>pre_wait = [], woken = WL_TIMEOUT, in_wait = [], before_reset = [],
          after_reset = [], conf_reload = None, in_work = []\<rparr>"
  have h1: "\<not> got_sigterm ?w" by simp
  have h2: "wait_result ?e ?w AND WL_POSTMASTER_DEATH = 0"
    by (simp add: wait_result_def Latch_wait_def deliver_def)
  have h3: "SIGTERM \<in> set (in_work ?e)" by simp
  have body: "loop_body ?e ?w = Running
     \<lparr>got_sighup = False, got_sigterm = True, MyLatch = True, cachemgr_sleep_time = 10,
      calls = [WaitLatch wake_events 10000, ResetLatch, CHECK_FOR_INTERRUPTS,
               SetCurrentStatementStartTimestamp, StartTransactionCommand, SPI_connect,
               PushActiveSnapshot, pgstat_report_activity STATE_RUNNING (Some ''Foobar''),
               SPI_finish, PopActiveSnapshot, CommitTransactionCommand,
               pgstat_report_stat False, pgstat_report_activity STATE_IDLE None]\<rparr>"
    by (simp add: loop_body_def Let_def Latch_wait_def Latch_reset_def Latch_set_def
        deliver_def cachemgr_sigterm_def emit_def work_begin_def work_end_def)
  from cycle_completes_before_exit [OF h1 h2 h3, of "[?q]"] body
  show ?thesis by (simp add: emit_def del: main_loop.simps)
qed

text \<open>
  C7: when the wait of an iteration returns with \<^verbatim>\<open>WL_POSTMASTER_DEATH\<close> set, the loop
  ends with the status 1; after the wait it calls \<^verbatim>\<open>ResetLatch\<close> and \<^verbatim>\<open>proc_exit( 1 )\<close>
  and nothing else, whatever the later iterations of the script are.
\<close>

theorem parent_death_exits:
  assumes "\<not> got_sigterm w"
    and "wait_result e w AND WL_POSTMASTER_DEATH \<noteq> 0"
  shows "\<exists>w'. main_loop (e # es) w = Exited 1 w'
           \<and> calls w' = calls w @ [WaitLatch wake_events (wait_timeout (cachemgr_sleep_time w)),
                                   ResetLatch, proc_exit 1]"
proof -
  obtain w' where "loop_body e w = Exited 1 w'"
    "calls w' = calls w @ [WaitLatch wake_events (wait_timeout (cachemgr_sleep_time w)),
                                   ResetLatch, proc_exit 1]"
    using loop_body_death [OF assms(2)] by blast
  then show ?thesis using assms(1) by simp
qed

theorem parent_death_exits_witness:
  "\<exists>w'. main_loop
      [\<lparr>pre_wait = [], woken = WL_POSTMASTER_DEATH, in_wait = [], before_reset = [],
        after_reset = [], conf_reload = None, in_work = []\<rparr>,
       \<lparr>pre_wait = [], woken = WL_TIMEOUT, in_wait = [], before_reset = [],
        after_reset = [], conf_reload = None, in_work = []\<rparr>]
      \<lparr>got_sighup = False, got_sigterm = False, MyLatch = False,
       cachemgr_sleep_time = 10, calls = []\<rparr> = Exited 1 w'
     \<and> calls w' = [WaitLatch wake_events 10000, ResetLatch, proc_exit 1]"
proof -
  let ?w = "\<lparr>got_sighup = False, got_sigterm = False, MyLatch = False,
       cachemgr_sleep_time = 10, calls = []\<rparr>"
  let ?e = "\<lparr>pre_wait = [], woken = WL_POSTMASTER_DEATH, in_wait = [], before_reset = [],
        after_reset = [], conf_reload = None, in_work = []\<rparr>"
  have h1: "\<not> got_sigterm ?w" by simp
  have h2: "wait_result ?e ?w AND WL_POSTMASTER_DEATH \<noteq> 0"
    by (simp add: wait_result_def Latch_wait_def deliver_def)
  from parent_death_exits [OF h1 h2,
      of "[\<lparr>pre_wait = [], woken = WL_TIMEOUT, in_wait = [], before_reset = [],
        after_reset = [], conf_reload = None, in_work = []\<rparr>]"]
  show ?thesis by simp
qed




text \<open>
  C10: every exit of the worker passes the status 1 to \<^verbatim>\<open>proc_exit\<close>: a run of
  \<^verbatim>\<open>cachemgr_main\<close> that exits does so with 1, the loop exits with 1 when a termination
  was requested, and it exits with 1 when the wait reports the death of the postmaster.
\<close>

theorem one_exit_status:
  "(exit_status (cachemgr_main a h) = None \<or> exit_status (cachemgr_main a h) = Some 1)
   \<and> (got_sigterm w \<longrightarrow> exit_status (main_loop es w) = Some 1)
   \<and> (\<not> got_sigterm w \<and> wait_result e w AND WL_POSTMASTER_DEATH \<noteq> 0 \<longrightarrow>
        exit_status (main_loop (e # es) w) = Some 1)"
proof (intro conjI impI)
  show "exit_status (cachemgr_main a h) = None \<or> exit_status (cachemgr_main a h) = Some 1"
    by (rule cachemgr_main_exit_status)
next
  assume "got_sigterm w"
  then show "exit_status (main_loop es w) = Some 1"
    by (simp add: main_loop_sigterm)
next
  assume a: "\<not> got_sigterm w \<and> wait_result e w AND WL_POSTMASTER_DEATH \<noteq> 0"
  then obtain w' where "loop_body e w = Exited 1 w'"
    using loop_body_death [of e w] by blast
  with a show "exit_status (main_loop (e # es) w) = Some 1" by simp
qed

theorem one_exit_status_witness:
  "exit_status (main_loop []
      \<lparr>got_sighup = False, got_sigterm = True, MyLatch = True,
       cachemgr_sleep_time = 10, calls = []\<rparr>) = Some 1
   \<and> exit_status (main_loop
      [\<lparr>pre_wait = [], woken = WL_POSTMASTER_DEATH, in_wait = [], before_reset = [],
        after_reset = [], conf_reload = None, in_work = []\<rparr>]
      \<lparr>got_sighup = False, got_sigterm = False, MyLatch = False,
       cachemgr_sleep_time = 10, calls = []\<rparr>) = Some 1"
proof -
  let ?t = "\<lparr>got_sighup = False, got_sigterm = True, MyLatch = True,
       cachemgr_sleep_time = 10, calls = []\<rparr>"
  let ?w = "\<lparr>got_sighup = False, got_sigterm = False, MyLatch = False,
       cachemgr_sleep_time = 10, calls = []\<rparr>"
  let ?e = "\<lparr>pre_wait = [], woken = WL_POSTMASTER_DEATH, in_wait = [], before_reset = [],
        after_reset = [], conf_reload = None, in_work = []\<rparr>"
  have t: "got_sigterm ?t" by simp
  have w: "\<not> got_sigterm ?w \<and> wait_result ?e ?w AND WL_POSTMASTER_DEATH \<noteq> 0"
    by (simp add: wait_result_def Latch_wait_def deliver_def)
  from t one_exit_status [where w = ?t and es = "[]"]
  have "exit_status (main_loop [] ?t) = Some 1" by blast
  moreover from w one_exit_status [where w = ?w and e = ?e and es = "[]"]
  have "exit_status (main_loop [?e] ?w) = Some 1" by blast
  ultimately show ?thesis by blast
qed

end
